theory Spec2Isabelle
  imports Main "HOL-Library.Sublist"
begin

section \<open>Python values and the world outside the program\<close>

text \<open>
  Exceptions are values. The type \<open>exn\<close> stands for the instances of Python's class
  \<open>Exception\<close>: the four subclasses that \<open>code_run.py\<close> names, and \<open>Exception\<close> for the
  class itself and for every other subclass (no handler of the program tells those apart).
  Each carries the text that \<open>str(e)\<close> returns. Interrupts that are not instances of
  \<open>Exception\<close>, such as \<open>KeyboardInterrupt\<close> and \<open>SystemExit\<close>, are outside the model.
\<close>

datatype exn =
    FileNotFoundError string
  | ValueError string
  | EOFError string
  | AttributeError string
  | Exception string

fun exn_str :: "exn \<Rightarrow> string" where
  "exn_str (FileNotFoundError m) = m"
| "exn_str (ValueError m) = m"
| "exn_str (EOFError m) = m"
| "exn_str (AttributeError m) = m"
| "exn_str (Exception m) = m"

text \<open>Python's \<open>needle in haystack\<close> on strings: some suffix of the haystack starts with the needle.\<close>

fun starts_with :: "string \<Rightarrow> string \<Rightarrow> bool" where
  "starts_with [] ys = True"
| "starts_with (x # xs) [] = False"
| "starts_with (x # xs) (y # ys) = (x = y \<and> starts_with xs ys)"

fun str_in :: "string \<Rightarrow> string \<Rightarrow> bool" where
  "str_in needle [] = starts_with needle []"
| "str_in needle (y # ys) = (starts_with needle (y # ys) \<or> str_in needle ys)"

text \<open>
  What \<open>subprocess.run\<close> and \<open>Popen\<close> followed by \<open>communicate\<close> give back: either the call raises
  (\<open>FileNotFoundError\<close> when the binary is not on the path), or the process exits with a
  return code and its two captured streams, stdout then stderr.
\<close>

datatype proc_result = Raised exn | Exited int string string

text \<open>The current directory: file names to file contents.\<close>

type_synonym fs = "string \<rightharpoonup> string"

text \<open>
  Everything outside the program that an invocation meets. \<open>open_fault\<close> and \<open>write_fault\<close>
  are the exceptions of \<open>open(file_name, 'w')\<close> and of \<open>writer.write(code)\<close>, if any;
  \<open>javac\<close> is the compiler, any function from the directory it finds to its outcome and the
  directory it leaves; \<open>remove_fault\<close> is the exception of \<open>os.remove\<close>, if any; \<open>java\<close> is
  the runtime with the submitted program, any function from the directory it finds and the
  standard input to its outcome and the directory it leaves.
\<close>

record env =
  open_fault :: "exn option"
  write_fault :: "exn option"
  javac :: "fs \<Rightarrow> proc_result \<times> fs"
  remove_fault :: "exn option"
  java :: "fs \<Rightarrow> string \<Rightarrow> proc_result \<times> fs"

section \<open>code\_run.py\<close>

definition class_name :: string where
  "class_name = ''Main''"

definition file_name :: string where
  "file_name = class_name @ ''.java''"

definition javac_not_found :: string where
  "javac_not_found =
     ''Java compiler (javac) not found. Please ensure Java JDK is installed and in PATH.''"

definition java_not_found :: string where
  "java_not_found =
     ''Java runtime (java) not found. Please ensure Java is installed and in PATH.''"

text \<open>
  The \<open>try\<close> block of \<open>compile_java_code\<close>. A failed \<open>open\<close> leaves the directory as it was;
  a failed \<open>write\<close> leaves the file that \<open>open\<close> created, modelled as empty. The result is the
  value returned (\<open>None\<close> or the compiler's stderr) or the exception raised.
\<close>

definition compile_try :: "env \<Rightarrow> string \<Rightarrow> fs \<Rightarrow> (exn + string option) \<times> fs" where
  "compile_try e code d =
     (case open_fault e of
        Some x \<Rightarrow> (Inl x, d)
      | None \<Rightarrow>
          (case write_fault e of
             Some x \<Rightarrow> (Inl x, d(file_name \<mapsto> []))
           | None \<Rightarrow>
               (case javac e (d(file_name \<mapsto> code)) of
                  (Raised x, d') \<Rightarrow> (Inl x, d')
                | (Exited returncode out err, d') \<Rightarrow>
                    (if returncode \<noteq> 0 then Inr (Some err) else Inr None, d'))))"

text \<open>The two \<open>except\<close> clauses of \<open>compile_java_code\<close>, in their order.\<close>

fun compile_except :: "exn + string option \<Rightarrow> exn + string option" where
  "compile_except (Inl (FileNotFoundError m)) = Inr (Some javac_not_found)"
| "compile_except (Inl x) = Inr (Some (''Compilation error: '' @ exn_str x))"
| "compile_except (Inr v) = Inr v"

text \<open>
  The \<open>finally\<close> block: when the source file exists it is removed, and an exception of
  \<open>os.remove\<close> is swallowed by the bare \<open>except\<close>.
\<close>

definition compile_finally :: "env \<Rightarrow> fs \<Rightarrow> fs" where
  "compile_finally e d =
     (if d file_name \<noteq> None
      then (case remove_fault e of Some x \<Rightarrow> d | None \<Rightarrow> d(file_name := None))
      else d)"

definition compile_java_code :: "env \<Rightarrow> string \<Rightarrow> fs \<Rightarrow> (exn + string option) \<times> fs" where
  "compile_java_code e code d =
     (case compile_try e code d of (r, d') \<Rightarrow> (compile_except r, compile_finally e d'))"

text \<open>The \<open>if\<close>/\<open>elif\<close> chain of \<open>run_java_class\<close> under \<open>returncode != 0\<close>: the exception raised.\<close>

definition exit_failure :: "string \<Rightarrow> exn" where
  "exit_failure err =
     (if str_in ''InputMismatchException'' err
        then ValueError ''The input is of an incorrect type.''
      else if str_in ''NoSuchElementException'' err
        then EOFError ''Scanner tried to read but no input was provided.''
      else if str_in ''NullPointerException'' err
        then AttributeError ''A null object was accessed in the executed code.''
      else Exception (''Error in execution: '' @ err))"

definition run_try :: "env \<Rightarrow> string \<Rightarrow> fs \<Rightarrow> (exn + string) \<times> fs" where
  "run_try e input_data d =
     (case java e d input_data of
        (Raised x, d') \<Rightarrow> (Inl x, d')
      | (Exited returncode out err, d') \<Rightarrow>
          (if returncode \<noteq> 0 then Inl (exit_failure err) else Inr out, d'))"

text \<open>
  The \<open>except\<close> clauses of \<open>run_java_class\<close>: a missing runtime becomes a returned text, every
  other exception is logged and raised again.
\<close>

fun run_except :: "exn + string \<Rightarrow> exn + string" where
  "run_except (Inl (FileNotFoundError m)) = Inr java_not_found"
| "run_except (Inl x) = Inl x"
| "run_except (Inr v) = Inr v"

definition run_java_class :: "env \<Rightarrow> string \<Rightarrow> fs \<Rightarrow> (exn + string) \<times> fs" where
  "run_java_class e input_data d =
     (case run_try e input_data d of (r, d') \<Rightarrow> (run_except r, d'))"

text \<open>Python's truth value of \<open>compilation_error\<close>: \<open>None\<close> and the empty string are false.\<close>

fun truthy :: "string option \<Rightarrow> bool" where
  "truthy None = False"
| "truthy (Some s) = (s \<noteq> [])"

definition compile_and_run_java :: "env \<Rightarrow> string \<Rightarrow> string \<Rightarrow> fs \<Rightarrow> (exn + string) \<times> fs" where
  "compile_and_run_java e code input_data d =
     (case compile_java_code e code d of
        (Inl x, d') \<Rightarrow> (Inl x, d')
      | (Inr compilation_error, d') \<Rightarrow>
          (if truthy compilation_error
           then (Inr (''Compilation failed:'' @ [CHR 0x0A] @ the compilation_error), d')
           else (case run_java_class e input_data d' of
                   (Inl x, d'') \<Rightarrow> (Inr (''Execution failed: '' @ exn_str x), d'')
                 | (Inr output, d'') \<Rightarrow> (Inr output, d''))))"

text \<open>
  The four kinds of runtime failure of the specification, and the kind that each exception
  class of \<open>run_java_class\<close> stands for.
\<close>

datatype failure_kind = TypeMismatch | EmptyInput | NullDereference | Unclassified

fun kind_of :: "exn \<Rightarrow> failure_kind" where
  "kind_of (ValueError m) = TypeMismatch"
| "kind_of (EOFError m) = EmptyInput"
| "kind_of (AttributeError m) = NullDereference"
| "kind_of (Exception m) = Unclassified"
| "kind_of (FileNotFoundError m) = Unclassified"

section \<open>app.py: the team\<close>

text \<open>
  The objects that \<open>_run_agent_team\<close> builds, with the arguments it passes. The model client
  is the same for both assistants and is left out; a tool is named by its function; the
  system message is one of the two prompts of \<open>prompts.py\<close>. The second argument of
  \<open>TextMentionTermination\<close> is \<open>sources\<close>, \<open>None\<close> when it is not given.
\<close>

datatype prompt = code_agent_prompt | critic_agent_prompt

datatype condition = TextMentionTermination string "string list option"

datatype participant =
    AssistantAgent (name: string) (tools: "string list") (system_message: prompt)
  | UserProxyAgent (name: string)
  | RoundRobinGroupChat (participants: "participant list") (termination_condition: condition)

definition coding_agent :: participant where
  "coding_agent = AssistantAgent ''Coding_Agent'' [''compile_and_run_java''] code_agent_prompt"

definition critic_agent :: participant where
  "critic_agent = AssistantAgent ''Critic_Agent'' [''compile_and_run_java''] critic_agent_prompt"

definition user_proxy :: participant where
  "user_proxy = UserProxyAgent ''user_proxy''"

definition outter_termination :: condition where
  "outter_termination = TextMentionTermination ''exit'' (Some [''user_proxy''])"

definition inner_chat :: participant where
  "inner_chat = RoundRobinGroupChat [coding_agent, critic_agent]
                  (TextMentionTermination ''Approved'' None)"

definition team :: participant where
  "team = RoundRobinGroupChat [inner_chat, user_proxy] outter_termination"

text \<open>A message of the conversation, as far as a termination condition reads it.\<close>

record message =
  source :: string
  content :: string

text \<open>
  Modelled from the spec: the matching rule of \<open>TextMentionTermination\<close>, a class of the agent
  library and not of this repository. The condition matches a message iff the content holds
  the text verbatim and the sender is one of the sources, or no sources were given.
\<close>

fun mentioned :: "condition \<Rightarrow> message \<Rightarrow> bool" where
  "mentioned (TextMentionTermination t None) m = str_in t (content m)"
| "mentioned (TextMentionTermination t (Some senders)) m =
     (str_in t (content m) \<and> List.member senders (source m))"

section \<open>app.py: the worker\<close>

text \<open>
  A dictionary sent through \<open>message_received\<close> is a list of key and value pairs. The three
  Qt signals of \<open>AgentWorker\<close> are the constructors of \<open>signal\<close>, and \<open>emitted\<close> records, in
  order, every signal the worker has emitted. \<open>user_reply_ready\<close> is the flag of the
  \<open>asyncio.Event\<close>.
\<close>

type_synonym dict = "(string \<times> string) list"

datatype signal = message_received dict | user_prompt string | task_finished

record worker =
  problem :: string
  user_reply :: "string option"
  user_reply_ready :: bool
  emitted :: "signal list"

definition init :: "string \<Rightarrow> worker" where
  "init p = \<lparr>problem = p, user_reply = None, user_reply_ready = False, emitted = []\<rparr>"

definition emit :: "signal \<Rightarrow> worker \<Rightarrow> worker" where
  "emit s w = w\<lparr>emitted := emitted w @ [s]\<rparr>"

definition set_user_reply :: "string \<Rightarrow> worker \<Rightarrow> exn + worker" where
  "set_user_reply reply w = Inr (w\<lparr>user_reply := Some reply, user_reply_ready := True\<rparr>)"

text \<open>
  A call of the coroutine \<open>_user_input\<close> either waits at \<open>await self.user_reply_ready.wait()\<close>
  or has returned. \<open>user_input\<close> runs the call up to the \<open>await\<close>, and through it when the
  event is already set; \<open>user_input_continue\<close> is the code after the \<open>await\<close>. Whether and
  when the event loop of the worker thread runs a waiting call again is decided by the
  \<open>asyncio\<close> library and is not part of the program.
\<close>

datatype 'a coroutine = Waiting | Returned 'a

definition user_input_continue :: "worker \<Rightarrow> string option coroutine \<times> worker" where
  "user_input_continue w =
     (let reply = user_reply w
      in (Returned reply, w\<lparr>user_reply := None, user_reply_ready := False\<rparr>))"

definition user_input :: "string \<Rightarrow> worker \<Rightarrow> string option coroutine \<times> worker" where
  "user_input p w =
     (let w' = emit (user_prompt p) w
      in if user_reply_ready w' then user_input_continue w' else (Waiting, w'))"









section \<open>Example environments\<close>

text \<open>
  A compiler that writes \<open>Main.class\<close> when the source declares class \<open>Main\<close> (here the
  class file holds the source text) and \<open>Other.class\<close> otherwise, and a runtime that prints
  the class file it loads and leaves the directory as it is.
\<close>

definition toy_javac :: "fs \<Rightarrow> proc_result \<times> fs" where
  "toy_javac d =
     (case d file_name of
        None \<Rightarrow> (Exited 2 [] ''error: file not found: Main.java'', d)
      | Some src \<Rightarrow>
          (if starts_with ''class Main '' src
           then (Exited 0 [] [], d(''Main.class'' \<mapsto> src))
           else (Exited 0 [] [], d(''Other.class'' \<mapsto> src))))"

definition toy_env :: "(fs \<Rightarrow> string \<Rightarrow> proc_result \<times> fs) \<Rightarrow> env" where
  "toy_env j = \<lparr>open_fault = None, write_fault = None, javac = toy_javac,
                remove_fault = None, java = j\<rparr>"

definition toy_java :: "fs \<Rightarrow> string \<Rightarrow> proc_result \<times> fs" where
  "toy_java d input_data =
     (case d ''Main.class'' of
        None \<Rightarrow> (Exited 1 [] ''Error: Could not find or load main class Main'', d)
      | Some c \<Rightarrow> (Exited 0 c [], d))"

section \<open>Substring tests\<close>

lemma starts_with_prefix: "starts_with xs ys = prefix xs ys"
  by (induction xs ys rule: starts_with.induct) simp_all

lemma str_in_sublist: "str_in needle hay = sublist needle hay"
  by (induction hay) (auto simp: starts_with_prefix sublist_Cons_right)

section \<open>Results and exceptions of the execution tool\<close>

lemma compile_except_Inr: "\<exists>v. compile_except r = Inr v"
  by (cases r rule: compile_except.cases) simp_all

lemma compile_java_code_Inr: "\<exists>v. fst (compile_java_code e code d) = Inr v"
  by (cases "compile_try e code d") (simp add: compile_java_code_def compile_except_Inr)

lemma run_except_exit_failure: "run_except (Inl (exit_failure err)) = Inl (exit_failure err)"
  by (simp add: exit_failure_def)

lemma fst_run_java_class:
  "fst (run_java_class e input_data d) =
     (case fst (java e d input_data) of
        Raised (FileNotFoundError m) \<Rightarrow> Inr java_not_found
      | Raised x \<Rightarrow> Inl x
      | Exited returncode out err \<Rightarrow>
          if returncode = 0 then Inr out else Inl (exit_failure err))"
  by (cases "java e d input_data")
    (simp add: run_java_class_def run_try_def run_except_exit_failure
      split: proc_result.splits exn.splits)

lemma snd_run_java_class: "snd (run_java_class e input_data d) = snd (java e d input_data)"
  by (cases "java e d input_data")
    (simp add: run_java_class_def run_try_def split: proc_result.splits)

lemma compile_and_run_java_Inr: "\<exists>s. fst (compile_and_run_java e code input_data d) = Inr s"
proof (cases "compile_java_code e code d")
  case (Pair r d')
  from compile_java_code_Inr [of e code d] Pair obtain v where "r = Inr v" by auto
  with Pair show ?thesis
    by (simp add: compile_and_run_java_def split: sum.splits prod.splits)
qed

lemma fst_compile_and_run_java:
  assumes "fst (compile_java_code e code d) = Inr v"
  shows "fst (compile_and_run_java e code input_data d) =
     (if truthy v then Inr (''Compilation failed:'' @ [CHR 0x0A] @ the v)
      else (case fst (run_java_class e input_data (snd (compile_java_code e code d))) of
              Inl x \<Rightarrow> Inr (''Execution failed: '' @ exn_str x)
            | Inr output \<Rightarrow> Inr output))"
  using assms
  by (cases "compile_java_code e code d")
    (simp add: compile_and_run_java_def split: sum.splits prod.splits)

lemma snd_compile_and_run_java:
  assumes "fst (compile_java_code e code d) = Inr v"
  shows "snd (compile_and_run_java e code input_data d) =
     (if truthy v then snd (compile_java_code e code d)
      else snd (java e (snd (compile_java_code e code d)) input_data))"
proof (cases "compile_java_code e code d")
  case (Pair r d')
  with assms have r: "r = Inr v" by simp
  show ?thesis
  proof (cases "truthy v")
    case True
    with Pair r show ?thesis by (simp add: compile_and_run_java_def)
  next
    case False
    have "snd (case run_java_class e input_data d' of
                 (Inl x, d'') \<Rightarrow> (Inr (''Execution failed: '' @ exn_str x), d'')
               | (Inr output, d'') \<Rightarrow> (Inr output, d'')) = snd (run_java_class e input_data d')"
      by (simp split: prod.splits sum.splits)
    with False Pair r show ?thesis
      by (simp add: compile_and_run_java_def snd_run_java_class)
  qed
qed

lemma snd_compile_java_code:
  "snd (compile_java_code e code d) = compile_finally e (snd (compile_try e code d))"
  by (simp add: compile_java_code_def split: prod.splits)

lemma fst_compile_java_code:
  "fst (compile_java_code e code d) = compile_except (fst (compile_try e code d))"
  by (simp add: compile_java_code_def split: prod.splits)

lemma compile_try_overwrites:
  assumes "open_fault e = None" and "write_fault e = None"
  shows "compile_try e code (d(file_name := x)) = compile_try e code d"
  using assms by (simp add: compile_try_def)

lemma file_name_literal: "file_name = ''Main.java''"
  by (simp add: file_name_def class_name_def)

text \<open>
  C1. When the process started by \<open>run_java_class\<close> exits with a nonzero code, its stderr is
  searched for three substrings in a fixed order and the first one found decides the failure:
  \<open>InputMismatchException\<close> gives the type mismatch (\<open>ValueError\<close>), \<open>NoSuchElementException\<close>
  the empty input (\<open>EOFError\<close>), \<open>NullPointerException\<close> the null dereference
  (\<open>AttributeError\<close>), and with none of them the failure is unclassified, an \<open>Exception\<close>
  whose text is \<open>Error in execution: \<close> followed by the whole stderr.
\<close>

theorem run_java_class_classifies:
  assumes "fst (java e d input_data) = Exited returncode out err" and "returncode \<noteq> 0"
  shows "\<exists>x. fst (run_java_class e input_data d) = Inl x \<and>
           (kind_of x, x) =
             (if sublist ''InputMismatchException'' err
                then (TypeMismatch, ValueError ''The input is of an incorrect type.'')
              else if sublist ''NoSuchElementException'' err
                then (EmptyInput, EOFError ''Scanner tried to read but no input was provided.'')
              else if sublist ''NullPointerException'' err
                then (NullDereference,
                      AttributeError ''A null object was accessed in the executed code.'')
              else (Unclassified, Exception (''Error in execution: '' @ err)))"
  using assms
  by (simp add: fst_run_java_class exit_failure_def str_in_sublist)

theorem run_java_class_classifies_witness:
  "fst (java (toy_env (\<lambda>d i. (Exited 1 [] ''java.util.NoSuchElementException, NullPointerException'', d)))
     Map.empty []) = Exited 1 [] ''java.util.NoSuchElementException, NullPointerException'' \<and>
   (1::int) \<noteq> 0 \<and>
   fst (run_java_class
     (toy_env (\<lambda>d i. (Exited 1 [] ''java.util.NoSuchElementException, NullPointerException'', d)))
     [] Map.empty) = Inl (EOFError ''Scanner tried to read but no input was provided.'')"
proof -
  let ?err = "''java.util.NoSuchElementException, NullPointerException''"
  have h1: "fst (java (toy_env (\<lambda>d i. (Exited 1 [] ?err, d))) Map.empty []) = Exited 1 [] ?err"
    by (simp add: toy_env_def)
  have h2: "(1::int) \<noteq> 0" by simp
  from run_java_class_classifies [OF h1 h2] h1
  show ?thesis by (auto simp: str_in_sublist [symmetric])
qed

text \<open>
  C2, as the claim states it, fails: \<open>run_java_class\<close> raises on a nonzero exit. Here the
  runtime exits with code 1 and an empty stderr.
\<close>

theorem run_java_class_raises_counterexample:
  "fst (run_java_class (toy_env (\<lambda>d i. (Exited 1 [] [], d))) [] Map.empty) =
     Inl (Exception ''Error in execution: '')"
  by (simp add: run_java_class_def run_try_def toy_env_def exit_failure_def)

text \<open>
  C2, amended. \<open>compile_java_code\<close> returns every failure as a value. \<open>run_java_class\<close> returns
  only the missing runtime as a value and raises every other failure to its caller: it raises
  exactly when the process call raises something other than \<open>FileNotFoundError\<close> or the
  process exits with a nonzero code. \<open>compile_and_run_java\<close> catches what \<open>run_java_class\<close>
  raises, so nothing is raised past \<open>compile_and_run_java\<close>.
\<close>

theorem tool_returns_failures_as_data:
  "(\<exists>v. fst (compile_java_code e code d) = Inr v) \<and>
   (\<exists>s. fst (compile_and_run_java e code input_data d) = Inr s) \<and>
   (\<exists>x. fst (run_java_class e input_data d) = Inl x) =
      (case fst (java e d input_data) of
         Raised (FileNotFoundError m) \<Rightarrow> False
       | Raised x \<Rightarrow> True
       | Exited returncode out err \<Rightarrow> returncode \<noteq> 0)"
proof -
  have "(\<exists>x. fst (run_java_class e input_data d) = Inl x) =
      (case fst (java e d input_data) of
         Raised (FileNotFoundError m) \<Rightarrow> False
       | Raised x \<Rightarrow> True
       | Exited returncode out err \<Rightarrow> returncode \<noteq> 0)"
    by (simp add: fst_run_java_class split: proc_result.splits exn.splits)
  with compile_java_code_Inr compile_and_run_java_Inr show ?thesis by blast
qed

text \<open>
  C3, as the claim states it, fails: with the runtime binary missing, \<open>compile_and_run_java\<close>
  returns the text of \<open>run_java_class\<close> for that case, which starts with neither prefix and
  is not the output of any process.
\<close>

theorem java_missing_text_counterexample:
  "fst (compile_and_run_java
          (toy_env (\<lambda>d i. (Raised (FileNotFoundError ''[Errno 2] No such file or directory: java''), d)))
          ''class Main {}'' [] Map.empty)
     = Inr ''Java runtime (java) not found. Please ensure Java is installed and in PATH.'' \<and>
   \<not> starts_with ''Compilation failed:'' ''Java runtime (java) not found. Please ensure Java is installed and in PATH.'' \<and>
   \<not> starts_with ''Execution failed:'' ''Java runtime (java) not found. Please ensure Java is installed and in PATH.''"
  by (simp add: compile_and_run_java_def compile_java_code_def compile_try_def compile_finally_def
      run_java_class_def run_try_def toy_env_def toy_javac_def file_name_def class_name_def
      java_not_found_def)

text \<open>
  C3, amended. \<open>compile_and_run_java\<close> returns one of four texts. When \<open>compile_java_code\<close>
  returns a non-empty text (the compiler's stderr, the text for a missing compiler, or
  \<open>Compilation error: \<close> and the exception's text), the result is \<open>Compilation failed:\<close>, a
  newline and that text. When \<open>compile_java_code\<close> returns \<open>None\<close>: the fixed text
  \<open>Java runtime (java) not found. Please ensure Java is installed and in PATH.\<close> if the runtime
  binary is missing; \<open>Execution failed: \<close> and the exception's text if the run raises; the
  program's stdout verbatim if it exits with code 0.
\<close>

theorem compile_and_run_java_shapes:
  assumes "fst (compile_java_code e code d) \<noteq> Inr (Some [])"
  shows "fst (compile_and_run_java e code input_data d) = Inr
     (case fst (compile_java_code e code d) of
        Inr (Some diagnostic) \<Rightarrow> ''Compilation failed:'' @ [CHR 0x0A] @ diagnostic
      | _ \<Rightarrow>
         (case fst (java e (snd (compile_java_code e code d)) input_data) of
            Raised (FileNotFoundError m) \<Rightarrow> java_not_found
          | Raised x \<Rightarrow> ''Execution failed: '' @ exn_str x
          | Exited returncode out err \<Rightarrow>
              if returncode = 0 then out
              else ''Execution failed: '' @ exn_str (exit_failure err)))"
proof -
  from compile_java_code_Inr [of e code d]
  obtain v where v: "fst (compile_java_code e code d) = Inr v" by auto
  show ?thesis
  proof (cases v)
    case None
    with v show ?thesis
      by (simp add: fst_compile_and_run_java [OF v] fst_run_java_class
          split: proc_result.splits exn.splits)
  next
    case (Some s)
    with assms v have "s \<noteq> []" by simp
    with v Some show ?thesis
      by (simp add: fst_compile_and_run_java [OF v])
  qed
qed

theorem compile_and_run_java_shapes_witness:
  "fst (compile_java_code (toy_env toy_java) ''class Main { }'' Map.empty) \<noteq> Inr (Some []) \<and>
   fst (compile_and_run_java (toy_env toy_java) ''class Main { }'' [] Map.empty) = Inr ''class Main { }''"
proof -
  have h: "fst (compile_java_code (toy_env toy_java) ''class Main { }'' Map.empty) \<noteq> Inr (Some [])"
    by (simp add: compile_java_code_def compile_try_def toy_env_def toy_javac_def
      file_name_def class_name_def)
  show ?thesis
    using h compile_and_run_java_shapes [OF h, of "[]"]
    by (simp add: compile_java_code_def compile_try_def compile_finally_def toy_env_def
        toy_javac_def toy_java_def file_name_def class_name_def)
qed

text \<open>
  C4, as the claim states it, fails: after a successful compile and run of a program that
  touches no file, the class file that the compiler wrote is still in the directory.
\<close>

theorem class_file_left_counterexample:
  "snd (compile_and_run_java (toy_env toy_java) ''class Main { }'' [] Map.empty) ''Main.class''
     = Some ''class Main { }''"
  by (simp add: compile_and_run_java_def run_java_class_def run_try_def compile_java_code_def
      compile_try_def compile_finally_def toy_env_def toy_javac_def toy_java_def file_name_def
      class_name_def)

text \<open>
  C4, amended. The only file the code removes is the source file \<open>Main.java\<close>, in the
  \<open>finally\<close> block of \<open>compile_java_code\<close>, before the program is run. When \<open>compile_java_code\<close>
  returns, the directory is the one that the compile step produced (the directory before the
  call if \<open>open\<close> or \<open>write\<close> failed, else the one the compiler left), without \<open>Main.java\<close> if
  \<open>os.remove\<close> did not fail; every other file, the compiled class among them, is kept. If
  \<open>os.remove\<close> fails the failure is swallowed and nothing is removed (a failed \<open>write\<close> then
  leaves the empty file it created). \<open>compile_and_run_java\<close> removes nothing afterwards: when it
  returns, the directory is the one \<open>compile_java_code\<close> left if the compile step returned a
  non-empty text, and the one that the run of the program left if the compile step returned
  \<open>None\<close>.
\<close>

theorem cleanup_removes_source_only:
  "snd (compile_java_code e code d) =
     (let made = (case open_fault e of
                    Some x \<Rightarrow> d
                  | None \<Rightarrow>
                      (case write_fault e of
                         Some x \<Rightarrow> d(''Main.java'' \<mapsto> [])
                       | None \<Rightarrow> snd (javac e (d(''Main.java'' \<mapsto> code)))))
      in if remove_fault e = None then made(''Main.java'' := None) else made) \<and>
   (case fst (compile_java_code e code d) of
      Inr None \<Rightarrow>
        snd (compile_and_run_java e code input_data d) =
          snd (java e (snd (compile_java_code e code d)) input_data)
    | Inr (Some (c # cs)) \<Rightarrow>
        snd (compile_and_run_java e code input_data d) = snd (compile_java_code e code d)
    | _ \<Rightarrow> True)"
proof -
  have "snd (compile_try e code d) =
      (case open_fault e of
         Some x \<Rightarrow> d
       | None \<Rightarrow>
           (case write_fault e of
              Some x \<Rightarrow> d(''Main.java'' \<mapsto> [])
            | None \<Rightarrow> snd (javac e (d(''Main.java'' \<mapsto> code)))))"
    by (simp add: compile_try_def file_name_literal
        split: option.splits prod.splits proc_result.splits)
  then have a: "snd (compile_java_code e code d) =
     (let made = (case open_fault e of
                    Some x \<Rightarrow> d
                  | None \<Rightarrow>
                      (case write_fault e of
                         Some x \<Rightarrow> d(''Main.java'' \<mapsto> [])
                       | None \<Rightarrow> snd (javac e (d(''Main.java'' \<mapsto> code)))))
      in if remove_fault e = None then made(''Main.java'' := None) else made)"
    by (auto simp: snd_compile_java_code compile_finally_def file_name_literal Let_def
        split: option.splits)
  from compile_java_code_Inr [of e code d]
  obtain v where v: "fst (compile_java_code e code d) = Inr v" by auto
  have b: "(case fst (compile_java_code e code d) of
      Inr None \<Rightarrow>
        snd (compile_and_run_java e code input_data d) =
          snd (java e (snd (compile_java_code e code d)) input_data)
    | Inr (Some (c # cs)) \<Rightarrow>
        snd (compile_and_run_java e code input_data d) = snd (compile_java_code e code d)
    | _ \<Rightarrow> True)"
    by (simp add: snd_compile_and_run_java [OF v] v split: option.splits list.splits)
  from a b show ?thesis by (rule conjI)
qed

theorem cleanup_removes_source_only_witness:
  "fst (compile_java_code
          (toy_env (\<lambda>d i. (Exited 0 [] [], d(''Main.class'' := None, ''Main.java'' \<mapsto> ''x''))))
          ''class Main { }'' Map.empty) = Inr None \<and>
   snd (compile_java_code
          (toy_env (\<lambda>d i. (Exited 0 [] [], d(''Main.class'' := None, ''Main.java'' \<mapsto> ''x''))))
          ''class Main { }'' Map.empty) = [''Main.class'' \<mapsto> ''class Main { }''] \<and>
   snd (compile_and_run_java
          (toy_env (\<lambda>d i. (Exited 0 [] [], d(''Main.class'' := None, ''Main.java'' \<mapsto> ''x''))))
          ''class Main { }'' [] Map.empty) = [''Main.java'' \<mapsto> ''x'']"
proof -
  let ?e = "toy_env (\<lambda>d i. (Exited 0 [] [], d(''Main.class'' := None, ''Main.java'' \<mapsto> ''x'')))"
  have h: "fst (compile_java_code ?e ''class Main { }'' Map.empty) = Inr None"
    by (simp add: compile_java_code_def compile_try_def toy_env_def toy_javac_def
        file_name_def class_name_def)
  have j: "java ?e = (\<lambda>d i. (Exited 0 [] [], d(''Main.class'' := None, ''Main.java'' \<mapsto> ''x'')))"
    by (simp add: toy_env_def)
  have m: "snd (javac ?e (Map.empty(''Main.java'' \<mapsto> ''class Main { }''))) =
      [''Main.java'' \<mapsto> ''class Main { }'', ''Main.class'' \<mapsto> ''class Main { }'']"
    by (simp add: toy_env_def toy_javac_def file_name_def class_name_def)
  have o: "open_fault ?e = None" "write_fault ?e = None" "remove_fault ?e = None"
    by (simp_all add: toy_env_def)
  from cleanup_removes_source_only [of ?e "''class Main { }''" Map.empty "[]"] h
  show ?thesis
    unfolding Let_def o m j by (auto simp: fun_upd_def)
qed

text \<open>
  C5, as the claim states it, fails: the working files have fixed names. Two invocations one
  after the other in the same directory: the first compiles class \<open>Main\<close>; the second has a
  different program, which declares another class; its run loads the class file of the first
  and returns the first program's output.
\<close>

theorem stale_class_counterexample:
  "fst (compile_and_run_java (toy_env toy_java) ''class Other { }'' []
         (snd (compile_and_run_java (toy_env toy_java) ''class Main { }'' [] Map.empty)))
     = Inr ''class Main { }''"
  by (simp add: compile_and_run_java_def compile_java_code_def compile_try_def compile_finally_def
      run_java_class_def run_try_def toy_env_def toy_javac_def toy_java_def file_name_def class_name_def)

text \<open>
  C5, amended. Every invocation works on the same fixed names in the current directory: when
  \<open>open\<close> and \<open>write\<close> do not fail, the compiler is started on the directory in which
  \<open>Main.java\<close> holds this invocation's code and every other file is what was there before, and
  whatever an earlier invocation left at \<open>Main.java\<close> is overwritten and has no effect on the
  result.
\<close>

theorem working_area_fixed:
  assumes "open_fault e = None" and "write_fault e = None"
  shows "compile_and_run_java e code input_data (d(''Main.java'' := x)) =
           compile_and_run_java e code input_data d \<and>
         snd (compile_try e code d) = snd (javac e (d(''Main.java'' \<mapsto> code)))"
proof -
  have "compile_try e code (d(''Main.java'' := x)) = compile_try e code d"
    using compile_try_overwrites [OF assms] file_name_literal by simp
  then have "compile_and_run_java e code input_data (d(''Main.java'' := x)) =
           compile_and_run_java e code input_data d"
    by (simp add: compile_and_run_java_def compile_java_code_def)
  moreover have "snd (compile_try e code d) = snd (javac e (d(''Main.java'' \<mapsto> code)))"
    using assms file_name_literal
    by (simp add: compile_try_def split: prod.splits proc_result.splits)
  ultimately show ?thesis by simp
qed

theorem working_area_fixed_witness:
  "open_fault (toy_env toy_java) = None \<and> write_fault (toy_env toy_java) = None \<and>
   compile_and_run_java (toy_env toy_java) ''class Main { }'' [] (Map.empty(''Main.java'' \<mapsto> ''class Main { int x; }'')) =
     compile_and_run_java (toy_env toy_java) ''class Main { }'' [] Map.empty"
proof -
  have h1: "open_fault (toy_env toy_java) = None" and h2: "write_fault (toy_env toy_java) = None"
    by (simp_all add: toy_env_def)
  from working_area_fixed [OF h1 h2, of "''class Main { }''" "[]" Map.empty "Some ''class Main { int x; }''"] h1 h2
  show ?thesis by simp
qed

section \<open>The team\<close>

text \<open>
  C6. The team is two levels deep. The inner team has the coding agent then the critic agent
  and ends on a message of any sender that mentions \<open>Approved\<close>; the outer team has the inner
  team, as one participant, then the human proxy, and ends on a message that mentions \<open>exit\<close>
  and whose sender is the human proxy.
\<close>

theorem team_structure:
  "participants team = [inner_chat, user_proxy] \<and>
   participants inner_chat = [coding_agent, critic_agent] \<and>
   coding_agent \<noteq> critic_agent \<and>
   termination_condition inner_chat = TextMentionTermination ''Approved'' None \<and>
   termination_condition team = TextMentionTermination ''exit'' (Some [name user_proxy]) \<and>
   mentioned (termination_condition inner_chat) m = sublist ''Approved'' (content m) \<and>
   mentioned (termination_condition team) m =
     (sublist ''exit'' (content m) \<and> source m = name user_proxy)"
  by (simp add: team_def inner_chat_def user_proxy_def outter_termination_def coding_agent_def
      critic_agent_def str_in_sublist)

section \<open>The run of the team\<close>




section \<open>The reply of the user\<close>

text \<open>
  C8, as the claim states it, fails: on a fresh worker, where no call of \<open>_user_input\<close> is
  waiting, \<open>set_user_reply\<close> does not fail; it stores the reply and sets the event.
\<close>

theorem set_user_reply_idle_counterexample:
  "set_user_reply ''late'' (init ''p'') =
     Inr \<lparr>problem = ''p'', user_reply = Some ''late'', user_reply_ready = True, emitted = []\<rparr>"
  by (simp add: set_user_reply_def init_def)

text \<open>
  C8, amended. \<open>set_user_reply\<close> never fails: in every state, also when no request is
  waiting, it stores the reply and sets the event, and the next call of \<open>_user_input\<close> then
  returns that reply at once.
\<close>

theorem set_user_reply_always_records:
  "\<exists>w'. set_user_reply reply w = Inr w' \<and> user_reply w' = Some reply \<and> user_reply_ready w' \<and>
        fst (user_input p w') = Returned (Some reply)"
  by (simp add: set_user_reply_def user_input_def user_input_continue_def emit_def)

text \<open>
  C9. The code as far as it goes at the failing input: a call of \<open>_user_input\<close> on a fresh
  worker emits the prompt and waits; \<open>set_user_reply\<close> then stores the reply and sets the
  flag of the event, and does nothing else; the code after the \<open>await\<close>, were it run on that
  state, would return exactly the reply and clear the reply and the event. The program calls
  \<open>set_user_reply\<close> from the GUI thread while the call waits in the event loop of the worker
  thread, and nothing in the program hands the waiting call back to that loop.
\<close>

theorem request_then_supply_evaluated:
  "user_input ''Enter your response: '' (init ''sum two numbers'') =
     (Waiting, \<lparr>problem = ''sum two numbers'', user_reply = None, user_reply_ready = False,
                emitted = [user_prompt ''Enter your response: '']\<rparr>) \<and>
   set_user_reply ''exit''
     \<lparr>problem = ''sum two numbers'', user_reply = None, user_reply_ready = False,
      emitted = [user_prompt ''Enter your response: '']\<rparr> =
     Inr \<lparr>problem = ''sum two numbers'', user_reply = Some ''exit'', user_reply_ready = True,
          emitted = [user_prompt ''Enter your response: '']\<rparr> \<and>
   user_input_continue
     \<lparr>problem = ''sum two numbers'', user_reply = Some ''exit'', user_reply_ready = True,
      emitted = [user_prompt ''Enter your response: '']\<rparr> =
     (Returned (Some ''exit''),
      \<lparr>problem = ''sum two numbers'', user_reply = None, user_reply_ready = False,
       emitted = [user_prompt ''Enter your response: '']\<rparr>)"
  by (simp add: user_input_def init_def emit_def set_user_reply_def user_input_continue_def)

section \<open>Totality of the compile step\<close>

text \<open>
  C10, as the claim states it, fails in its last clause: a failure of the cleanup in the
  \<open>finally\<close> block is not converted to a returned string. Here the compile succeeds and
  \<open>os.remove\<close> raises: the result is \<open>None\<close> and the source file stays.
\<close>

theorem cleanup_failure_swallowed_counterexample:
  "fst (compile_java_code
          ((toy_env toy_java)\<lparr>remove_fault := Some (Exception ''[Errno 13] Permission denied'')\<rparr>)
          ''class Main { }'' Map.empty) = Inr None \<and>
   snd (compile_java_code
          ((toy_env toy_java)\<lparr>remove_fault := Some (Exception ''[Errno 13] Permission denied'')\<rparr>)
          ''class Main { }'' Map.empty) ''Main.java'' = Some ''class Main { }''"
  by (simp add: compile_java_code_def compile_try_def compile_finally_def toy_env_def
      toy_javac_def file_name_def class_name_def)

text \<open>
  C10, amended. \<open>compile_java_code\<close> never raises and its result is: \<open>None\<close> exactly when
  \<open>open\<close>, \<open>write\<close> and the compiler call do not raise and the compiler exits with code 0;
  the compiler's stderr when it exits with another code; the fixed text
  \<open>Java compiler (javac) not found. Please ensure Java JDK is installed and in PATH.\<close> when
  \<open>open\<close>, \<open>write\<close> or the compiler call raises \<open>FileNotFoundError\<close>; \<open>Compilation error: \<close>
  followed by the exception's text when one of them raises any other exception. A failure of
  the cleanup in the \<open>finally\<close> block is caught and swallowed: it does not change the result.
\<close>

theorem compile_java_code_total:
  "fst (compile_java_code e code d) =
     (let caught = (\<lambda>x. case x of
                      FileNotFoundError m \<Rightarrow>
                        ''Java compiler (javac) not found. Please ensure Java JDK is installed and in PATH.''
                    | _ \<Rightarrow> ''Compilation error: '' @ exn_str x)
      in Inr (case open_fault e of
                Some x \<Rightarrow> Some (caught x)
              | None \<Rightarrow>
                  (case write_fault e of
                     Some x \<Rightarrow> Some (caught x)
                   | None \<Rightarrow>
                       (case fst (javac e (d(''Main.java'' \<mapsto> code))) of
                          Raised x \<Rightarrow> Some (caught x)
                        | Exited returncode out err \<Rightarrow>
                            if returncode = 0 then None else Some err)))) \<and>
   fst (compile_java_code (e\<lparr>remove_fault := r\<rparr>) code d) = fst (compile_java_code e code d)"
proof -
  have c: "compile_except (Inl x) =
      Inr (Some (case x of
                   FileNotFoundError m \<Rightarrow>
                     ''Java compiler (javac) not found. Please ensure Java JDK is installed and in PATH.''
                 | _ \<Rightarrow> ''Compilation error: '' @ exn_str x))" for x
    by (cases x) (simp_all add: javac_not_found_def)
  have "fst (compile_try (e\<lparr>remove_fault := r\<rparr>) code d) = fst (compile_try e code d)"
    by (simp add: compile_try_def split: option.splits)
  then have "fst (compile_java_code (e\<lparr>remove_fault := r\<rparr>) code d) =
      fst (compile_java_code e code d)"
    by (simp add: fst_compile_java_code)
  moreover have "fst (compile_java_code e code d) =
     (let caught = (\<lambda>x. case x of
                      FileNotFoundError m \<Rightarrow>
                        ''Java compiler (javac) not found. Please ensure Java JDK is installed and in PATH.''
                    | _ \<Rightarrow> ''Compilation error: '' @ exn_str x)
      in Inr (case open_fault e of
                Some x \<Rightarrow> Some (caught x)
              | None \<Rightarrow>
                  (case write_fault e of
                     Some x \<Rightarrow> Some (caught x)
                   | None \<Rightarrow>
                       (case fst (javac e (d(''Main.java'' \<mapsto> code))) of
                          Raised x \<Rightarrow> Some (caught x)
                        | Exited returncode out err \<Rightarrow>
                            if returncode = 0 then None else Some err))))"
    unfolding Let_def fst_compile_java_code
    by (simp add: compile_try_def c file_name_literal
        split: option.splits prod.splits proc_result.splits)
  ultimately show ?thesis by simp
qed

end
